theory Spec2Isabelle
  imports Complex_Main "HOL-Library.Sublist" "HOL-Library.AList"
begin

section \<open>Values, exceptions and collaborators\<close>

text \<open>
  The embedding follows \<^verbatim>\<open>src/mlexpy/experiment.py\<close>. Python values that reach a
  truthiness test or a metric call are values of \<open>pyval\<close>; an exception is a value of
  \<open>exn\<close> and a call that may raise returns \<open>exn + 'a\<close>, \<open>Inl\<close> being the raise.
\<close>

datatype pyval =
    PyNone
  | PyBool bool
  | PyInt int
  | PyFloat real
  | PyStr string
  | PyList "pyval list"

text \<open>
  Python's truth value of the built-in values above, as \<^verbatim>\<open>not x\<close> tests it. Values
  whose truth test can itself raise (a numpy array of several elements) are not among
  them.
\<close>

fun truthy :: "pyval \<Rightarrow> bool" where
  "truthy PyNone = False"
| "truthy (PyBool b) = b"
| "truthy (PyInt i) = (i \<noteq> 0)"
| "truthy (PyFloat r) = (r \<noteq> 0)"
| "truthy (PyStr s) = (s \<noteq> [])"
| "truthy (PyList xs) = (xs \<noteq> [])"

datatype exn =
    ValueError string
  | NotImplementedError string
  | IndexError string
  | TypeError string
  | AttributeError string
  | OtherError string

text \<open>What \<^verbatim>\<open>except ValueError\<close> catches.\<close>

fun is_ValueError :: "exn \<Rightarrow> bool" where
  "is_ValueError (ValueError _) = True"
| "is_ValueError _ = False"

datatype average = Macro | Micro | Weighted

text \<open>
  A registered metric is a callable \<^verbatim>\<open>metric(labels, prediction)\<close> that also may be
  called with the keyword \<^verbatim>\<open>average=...\<close>; the third argument is that keyword,
  \<open>None\<close> when the call does not pass it.
\<close>

type_synonym 'v metric = "pyval \<Rightarrow> pyval \<Rightarrow> average option \<Rightarrow> exn + 'v"

record 'o MLSetup =
  obs :: 'o
  labels :: pyval

record 'o ExperimentSetup =
  train_data :: "'o MLSetup"
  test_data :: "'o MLSetup"

text \<open>A \<^verbatim>\<open>pathlib.Path\<close>, built from a string and extended with the \<^verbatim>\<open>/\<close> operator.\<close>

datatype path = Path string | Join path string

datatype model_dir_arg = DirStr string | DirPath path

text \<open>
  \<^verbatim>\<open>np.random.RandomState(rnd_int)\<close>: the generator object created from the seed. It
  is one mutable object, and every splitter that \<^verbatim>\<open>cv_splits\<close> builds receives this same
  object, not the seed. Its internal state and the numbers drawn from it belong to
  numpy and scikit-learn and are not part of this development.
\<close>

datatype RandomState = RandomState int

text \<open>
  A model-IO slot holds one of the two default bound methods or a caller's function.
\<close>

datatype 'f model_io = Default_store_model | Default_load_model | Custom 'f

section \<open>The lifecycle controller\<close>

text \<open>
  The attributes of an experiment object. An attribute that a constructor may leave
  unset is an option: \<open>load_model\<close> (the class defines no method of that name, so it
  exists only when \<^verbatim>\<open>__init__\<close> assigns it) and \<open>baseline_value\<close> (assigned by the two
  specializations only). \<open>processor\<close> is assigned \<^verbatim>\<open>None\<close> and never read.
\<close>

record ('o, 'f, 'v) ExperimentBase =
  testing :: "'o MLSetup"
  training :: "'o MLSetup"
  test_cv_split :: real
  rnd :: RandomState
  cv_split_count :: int
  metric_dict :: "(string \<times> 'v metric) list"
  standard_metric :: string
  process_tag :: string
  model_tag :: string
  store_model :: "'f model_io"
  load_model :: "'f model_io option"
  model_dir :: path
  baseline_value :: "pyval option"

text \<open>
  \<^verbatim>\<open>ExperimentBase.__init__\<close>, lines 64-80: the model-IO slots. A function object is
  truthy, so \<^verbatim>\<open>not model_storage_function\<close> holds exactly for \<^verbatim>\<open>None\<close>. The last branch
  assigns \<^verbatim>\<open>self.store_model\<close> (line 80), as the source does.
\<close>

definition init_store_model :: "'f option \<Rightarrow> 'f option \<Rightarrow> 'f model_io" where
  "init_store_model model_storage_function model_loading_function =
     (let store = (case model_storage_function of
                     None \<Rightarrow> Default_store_model
                   | Some f \<Rightarrow> Custom f)
      in case model_loading_function of
           None \<Rightarrow> store
         | Some g \<Rightarrow> Custom g)"

definition init_load_model :: "'f option \<Rightarrow> 'f model_io option" where
  "init_load_model model_loading_function =
     (case model_loading_function of
        None \<Rightarrow> Some Default_load_model
      | Some g \<Rightarrow> None)"

text \<open>
  Lines 82-96: the model directory. \<open>sys_path_last\<close> is \<^verbatim>\<open>sys.path[-1]\<close>. An empty
  string is falsy and takes the first branch; a path object is always truthy.
\<close>

definition init_model_dir :: "string \<Rightarrow> model_dir_arg option \<Rightarrow> string \<Rightarrow> path" where
  "init_model_dir sys_path_last model_dir_a process_tag_a =
     (case model_dir_a of
        None \<Rightarrow> Join (Join (Path sys_path_last) ''.models'') process_tag_a
      | Some (DirStr s) \<Rightarrow>
          (if s = [] then Join (Join (Path sys_path_last) ''.models'') process_tag_a
           else Join (Path s) process_tag_a)
      | Some (DirPath p) \<Rightarrow> Join p process_tag_a)"

definition ExperimentBase_init ::
  "string \<Rightarrow> 'o MLSetup \<Rightarrow> 'o MLSetup \<Rightarrow> int \<Rightarrow> int \<Rightarrow> model_dir_arg option \<Rightarrow>
   'f option \<Rightarrow> 'f option \<Rightarrow> string \<Rightarrow> string \<Rightarrow> ('o, 'f, 'v) ExperimentBase" where
  "ExperimentBase_init sys_path_last train_setup test_setup cv_split_count_a rnd_int
     model_dir_a model_storage_function model_loading_function model_tag_a process_tag_a =
     \<lparr> testing = test_setup,
       training = train_setup,
       test_cv_split = 0.4,
       rnd = RandomState rnd_int,
       cv_split_count = cv_split_count_a,
       metric_dict = [],
       standard_metric = '''',
       process_tag = process_tag_a,
       model_tag = model_tag_a,
       store_model = init_store_model model_storage_function model_loading_function,
       load_model = init_load_model model_loading_function,
       model_dir = init_model_dir sys_path_last model_dir_a process_tag_a,
       baseline_value = None \<rparr>"

text \<open>
  Calling \<^verbatim>\<open>self.load_model(model)\<close> and \<^verbatim>\<open>self.store_model(model)\<close>: which function
  the call reaches. A slot that was never assigned raises \<^verbatim>\<open>AttributeError\<close>.
\<close>

definition call_load_model :: "('o, 'f, 'v) ExperimentBase \<Rightarrow> exn + 'f model_io" where
  "call_load_model e =
     (case load_model e of
        None \<Rightarrow> Inl (AttributeError ''load_model'')
      | Some f \<Rightarrow> Inr f)"

definition call_store_model :: "('o, 'f, 'v) ExperimentBase \<Rightarrow> exn + 'f model_io" where
  "call_store_model e = Inr (store_model e)"

text \<open>\<^verbatim>\<open>add_metric\<close> and \<^verbatim>\<open>remove_metric\<close>: the registry is an insertion-ordered dict.\<close>

definition add_metric ::
  "('o, 'f, 'v) ExperimentBase \<Rightarrow> 'v metric \<Rightarrow> string \<Rightarrow> ('o, 'f, 'v) ExperimentBase" where
  "add_metric e metric name = e\<lparr>metric_dict := AList.update name metric (metric_dict e)\<rparr>"

definition remove_metric ::
  "('o, 'f, 'v) ExperimentBase \<Rightarrow> string \<Rightarrow> exn + ('o, 'f, 'v) ExperimentBase" where
  "remove_metric e name =
     (if name \<in> fst ` set (metric_dict e)
      then Inr (e\<lparr>metric_dict := AList.delete name (metric_dict e)\<rparr>)
      else Inl (OtherError ''KeyError''))"

section \<open>Cross-validation search\<close>

text \<open>The arguments \<^verbatim>\<open>cv_splits\<close> gives to \<^verbatim>\<open>StratifiedShuffleSplit\<close>.\<close>

record StratifiedShuffleSplit =
  n_splits :: int
  test_size :: real
  random_state :: RandomState

definition cv_splits :: "('o, 'f, 'v) ExperimentBase \<Rightarrow> int \<Rightarrow> StratifiedShuffleSplit" where
  "cv_splits e n_splits_a =
     \<lparr> n_splits = n_splits_a, test_size = test_cv_split e, random_state = rnd e \<rparr>"

text \<open>
  The search object \<^verbatim>\<open>cv_search\<close> builds: \<^verbatim>\<open>GridSearchCV(ml_model, parameters, scoring,
  cv, n_jobs)\<close> or \<^verbatim>\<open>RandomizedSearchCV(ml_model, parameters, n_iter, scoring, cv, verbose,
  refit, n_jobs)\<close>, with the arguments in that order.
\<close>

datatype ('m, 'p) search =
    GridSearchCV 'm 'p string StratifiedShuffleSplit int
  | RandomizedSearchCV 'm 'p int string StratifiedShuffleSplit int bool int

definition no_standard_metric_msg :: string where
  "no_standard_metric_msg =
     ''No standard_metric has been set. This is likely because the ExperimentBase is being called, instead of being inherited. Try using the ClassifierExpirament or RegressionExpirament, or build a child class to inherit the ExpiramentBase.''"

text \<open>
  \<^verbatim>\<open>cv_search\<close>. \<open>fit_search\<close> stands for scikit-learn's
  \<^verbatim>\<open>cv_search.fit(obs, labels)\<close>, the logging of \<^verbatim>\<open>cv_report\<close> and
  \<^verbatim>\<open>cv_search.best_estimator_\<close>.
\<close>

definition cv_search ::
  "(('m, 'p) search \<Rightarrow> 'o \<Rightarrow> pyval \<Rightarrow> exn + 'm) \<Rightarrow> ('o, 'f, 'v) ExperimentBase \<Rightarrow>
   'o MLSetup \<Rightarrow> 'm \<Rightarrow> 'p \<Rightarrow> string \<Rightarrow> int \<Rightarrow> exn + 'm" where
  "cv_search fit_search e data_setup ml_model parameters cv_model random_iterations =
     (if standard_metric e = [] then Inl (NotImplementedError no_standard_metric_msg)
      else if cv_model = ''grid_search'' then
        fit_search
          (GridSearchCV ml_model parameters (standard_metric e)
             (cv_splits e (cv_split_count e)) 1)
          (obs data_setup) (labels data_setup)
      else
        fit_search
          (RandomizedSearchCV ml_model parameters random_iterations (standard_metric e)
             (cv_splits e (cv_split_count e)) 2 True 1)
          (obs data_setup) (labels data_setup))"

section \<open>Classifier evaluation\<close>

text \<open>
  The scikit-learn functions that \<^verbatim>\<open>ClassifierExperimentBase.__init__\<close> registers.
  They are collaborators of this module and stay parameters.
\<close>

record 'v classifier_metrics =
  f1_score :: "'v metric"
  log_loss :: "'v metric"
  balanced_accuracy_score :: "'v metric"
  accuracy_score :: "'v metric"
  confusion_matrix :: "'v metric"
  classification_report :: "'v metric"

definition ClassifierExperimentBase_init ::
  "'v classifier_metrics \<Rightarrow> string \<Rightarrow> 'o MLSetup \<Rightarrow> 'o MLSetup \<Rightarrow> int \<Rightarrow> int \<Rightarrow>
   model_dir_arg option \<Rightarrow> 'f option \<Rightarrow> 'f option \<Rightarrow> string \<Rightarrow> string \<Rightarrow>
   ('o, 'f, 'v) ExperimentBase" where
  "ClassifierExperimentBase_init sk sys_path_last train_setup test_setup cv_split_count_a
     rnd_int model_dir_a model_storage_function model_loading_function model_tag_a
     process_tag_a =
     (ExperimentBase_init sys_path_last train_setup test_setup cv_split_count_a rnd_int
        model_dir_a model_storage_function model_loading_function model_tag_a process_tag_a)
     \<lparr> baseline_value := Some PyNone,
       standard_metric := ''f1_macro'',
       metric_dict :=
         [(''f1'', f1_score sk),
          (''log_loss'', log_loss sk),
          (''balanced_accuracy'', balanced_accuracy_score sk),
          (''accuracy'', accuracy_score sk),
          (''confusion_matrix'', confusion_matrix sk),
          (''classification_report'', classification_report sk)] \<rparr>"

definition no_baseline_msg :: string where
  "no_baseline_msg =
     ''No baseline value was provided to the class and a baseline evaluation was called. Either set a baseline value or pass baseline_prediction=False to evaluate_predictions method.''"

definition nl :: string where
  "nl = [CHR 0x0A]"

text \<open>The text of the three \<^verbatim>\<open>print\<close> calls of the classifier's \<^verbatim>\<open>evaluate_predictions\<close>.\<close>

definition unknown_issues_line :: "string \<Rightarrow> string" where
  "unknown_issues_line name = ''Unknown issues with the '' @ name @ '' metric evaluation.''"

definition score_line :: "('v \<Rightarrow> string) \<Rightarrow> string \<times> 'v \<Rightarrow> string" where
  "score_line str item =
     nl @ ''The '' @ fst item @ '' score is: '' @ nl @ '' '' @ str (snd item) @ ''.''"

text \<open>
  Lines 301-321, the body of the loop over \<^verbatim>\<open>self.metric_dict.items()\<close> for one
  item. \<open>result_dict\<close> is the dict built so far and \<open>out\<close> the lines printed so far.
  \<^verbatim>\<open>"f1" in name\<close> is \<open>sublist ''f1'' name\<close>. \<open>Inl\<close> is an exception that no handler
  of the body catches.
\<close>

definition clf_score_metric ::
  "string \<times> 'v metric \<Rightarrow> pyval \<Rightarrow> pyval \<Rightarrow> pyval \<Rightarrow> (string \<times> 'v) list \<Rightarrow>
   string list \<Rightarrow> string list \<times> (exn + (string \<times> 'v) list)" where
  "clf_score_metric item lbls evaluation_prediction class_probabilities result_dict out =
     (let name = fst item; metric = snd item in
      if sublist ''f1'' name then
        (case metric lbls evaluation_prediction (Some Macro) of
           Inl ex \<Rightarrow> (out, Inl ex)
         | Inr v1 \<Rightarrow>
        (case metric lbls evaluation_prediction (Some Micro) of
           Inl ex \<Rightarrow> (out, Inl ex)
         | Inr v2 \<Rightarrow>
        (case metric lbls evaluation_prediction (Some Weighted) of
           Inl ex \<Rightarrow> (out, Inl ex)
         | Inr v3 \<Rightarrow>
             (out,
              Inr (AList.update (name @ ''_weighted'') v3
                    (AList.update (name @ ''_micro'') v2
                      (AList.update (name @ ''_macro'') v1 result_dict)))))))
      else
        (case metric lbls evaluation_prediction None of
           Inr v \<Rightarrow> (out, Inr (AList.update name v result_dict))
         | Inl ex \<Rightarrow>
             if is_ValueError ex then
               (case metric lbls class_probabilities None of
                  Inr v \<Rightarrow> (out, Inr (AList.update name v result_dict))
                | Inl ex' \<Rightarrow>
                    if is_ValueError ex' then (out @ [unknown_issues_line name], Inr result_dict)
                    else (out, Inl ex'))
             else (out, Inl ex)))"

text \<open>The loop of lines 300-321: an exception ends it, otherwise the next item is scored.\<close>

fun clf_score_metrics ::
  "(string \<times> 'v metric) list \<Rightarrow> pyval \<Rightarrow> pyval \<Rightarrow> pyval \<Rightarrow> (string \<times> 'v) list \<Rightarrow>
   string list \<Rightarrow> string list \<times> (exn + (string \<times> 'v) list)" where
  "clf_score_metrics [] lbls evaluation_prediction class_probabilities result_dict out =
     (out, Inr result_dict)"
| "clf_score_metrics (item # rest) lbls evaluation_prediction class_probabilities
     result_dict out =
     (case clf_score_metric item lbls evaluation_prediction class_probabilities
             result_dict out of
        (out', Inl ex) \<Rightarrow> (out', Inl ex)
      | (out', Inr result_dict') \<Rightarrow>
          clf_score_metrics rest lbls evaluation_prediction class_probabilities
            result_dict' out')"

text \<open>
  \<^verbatim>\<open>ClassifierExperimentBase.evaluate_predictions\<close>. The result is the lines printed
  and either the exception raised or the returned \<open>result_dict\<close>. \<open>str\<close> is Python's
  formatting of a score inside the f-string.
\<close>

definition ClassifierExperimentBase_evaluate_predictions ::
  "('v \<Rightarrow> string) \<Rightarrow> ('o, 'f, 'v) ExperimentBase \<Rightarrow> pyval \<Rightarrow> pyval \<Rightarrow> pyval \<Rightarrow> bool \<Rightarrow>
   string list \<times> (exn + (string \<times> 'v) list)" where
  "ClassifierExperimentBase_evaluate_predictions str e lbls predictions class_probabilities
     baseline_prediction =
     (case (if baseline_prediction then
              (case baseline_value e of
                 None \<Rightarrow> Inl (AttributeError ''baseline_value'')
               | Some b \<Rightarrow> if \<not> truthy b then Inl (ValueError no_baseline_msg) else Inr b)
            else Inr predictions) of
        Inl ex \<Rightarrow> ([], Inl ex)
      | Inr evaluation_prediction \<Rightarrow>
          (case clf_score_metrics (metric_dict e) lbls evaluation_prediction
                  class_probabilities [] [] of
             (out, Inl ex) \<Rightarrow> (out, Inl ex)
           | (out, Inr result_dict) \<Rightarrow>
               (out @ map (score_line str) result_dict, Inr result_dict)))"

section \<open>Regression evaluation\<close>

text \<open>
  \<^verbatim>\<open>sklearn.metrics.mean_squared_error\<close> and \<^verbatim>\<open>mean_absolute_error\<close>, the two
  functions the regression specialization registers, by their documented definition
  on one-dimensional numeric targets: the mean of the squared, respectively absolute,
  differences. Numbers are reals, so rounding is not modelled. Targets of different or
  zero length raise \<^verbatim>\<open>ValueError\<close>. Any other argument (not a sequence, not numeric,
  nested) is represented as a raise as well; no statement below depends on which.
\<close>

fun num_of :: "pyval \<Rightarrow> real option" where
  "num_of (PyInt i) = Some (real_of_int i)"
| "num_of (PyFloat r) = Some r"
| "num_of (PyBool b) = Some (if b then 1 else 0)"
| "num_of _ = None"

fun as_array :: "pyval \<Rightarrow> exn + real list" where
  "as_array (PyList xs) =
     (if list_all (\<lambda>x. num_of x \<noteq> None) xs then Inr (map (\<lambda>x. the (num_of x)) xs)
      else Inl (ValueError ''could not convert to float''))"
| "as_array _ = Inl (TypeError ''Expected sequence or array-like'')"

definition regression_targets :: "pyval \<Rightarrow> pyval \<Rightarrow> average option \<Rightarrow> exn + (real \<times> real) list"
  where
  "regression_targets y_true y_pred avg =
     (case avg of
        Some _ \<Rightarrow> Inl (TypeError ''got an unexpected keyword argument average'')
      | None \<Rightarrow>
     (case as_array y_true of
        Inl ex \<Rightarrow> Inl ex
      | Inr ys \<Rightarrow>
     (case as_array y_pred of
        Inl ex \<Rightarrow> Inl ex
      | Inr ps \<Rightarrow>
          if length ys \<noteq> length ps
          then Inl (ValueError ''Found input variables with inconsistent numbers of samples'')
          else if ys = [] then Inl (ValueError ''Found array with 0 sample(s)'')
          else Inr (zip ys ps))))"

definition mean_squared_error :: "real metric" where
  "mean_squared_error y_true y_pred avg =
     (case regression_targets y_true y_pred avg of
        Inl ex \<Rightarrow> Inl ex
      | Inr yps \<Rightarrow> Inr (sum_list (map (\<lambda>(y, p). (y - p)\<^sup>2) yps) / real (length yps)))"

definition mean_absolute_error :: "real metric" where
  "mean_absolute_error y_true y_pred avg =
     (case regression_targets y_true y_pred avg of
        Inl ex \<Rightarrow> Inl ex
      | Inr yps \<Rightarrow> Inr (sum_list (map (\<lambda>(y, p). \<bar>y - p\<bar>) yps) / real (length yps)))"

definition RegressionExperimentBase_init ::
  "string \<Rightarrow> 'o MLSetup \<Rightarrow> 'o MLSetup \<Rightarrow> int \<Rightarrow> int \<Rightarrow> model_dir_arg option \<Rightarrow>
   'f option \<Rightarrow> 'f option \<Rightarrow> string \<Rightarrow> string \<Rightarrow> ('o, 'f, real) ExperimentBase" where
  "RegressionExperimentBase_init sys_path_last train_setup test_setup cv_split_count_a
     rnd_int model_dir_a model_storage_function model_loading_function model_tag_a
     process_tag_a =
     (ExperimentBase_init sys_path_last train_setup test_setup cv_split_count_a rnd_int
        model_dir_a model_storage_function model_loading_function model_tag_a process_tag_a)
     \<lparr> baseline_value := Some PyNone,
       standard_metric := ''neg_root_mean_squared_error'',
       metric_dict :=
         [(''mse'', mean_squared_error),
          (''mae'', mean_absolute_error)] \<rparr>"

definition is_line :: "('v \<Rightarrow> string) \<Rightarrow> string \<Rightarrow> 'v \<Rightarrow> string" where
  "is_line str name v = nl @ ''The '' @ name @ '' is: '' @ str v"

text \<open>Lines 476-478, the loop of the regression \<^verbatim>\<open>evaluate_predictions\<close>.\<close>

fun reg_score_metrics ::
  "('v \<Rightarrow> string) \<Rightarrow> (string \<times> 'v metric) list \<Rightarrow> pyval \<Rightarrow> pyval \<Rightarrow> (string \<times> 'v) list \<Rightarrow>
   string list \<Rightarrow> string list \<times> (exn + (string \<times> 'v) list)" where
  "reg_score_metrics str [] lbls evaluation_prediction result_dict out =
     (out, Inr result_dict)"
| "reg_score_metrics str ((name, metric) # rest) lbls evaluation_prediction result_dict out =
     (case metric lbls evaluation_prediction None of
        Inl ex \<Rightarrow> (out, Inl ex)
      | Inr v \<Rightarrow>
          reg_score_metrics str rest lbls evaluation_prediction
            (AList.update name v result_dict) (out @ [is_line str name v]))"

text \<open>
  \<^verbatim>\<open>RegressionExperimentBase.evaluate_predictions\<close>; \<open>class_probabilities\<close> is accepted
  and not used.
\<close>

definition RegressionExperimentBase_evaluate_predictions ::
  "('v \<Rightarrow> string) \<Rightarrow> ('o, 'f, 'v) ExperimentBase \<Rightarrow> pyval \<Rightarrow> pyval \<Rightarrow> pyval \<Rightarrow> bool \<Rightarrow>
   string list \<times> (exn + (string \<times> 'v) list)" where
  "RegressionExperimentBase_evaluate_predictions str e lbls predictions class_probabilities
     baseline_prediction =
     (case (if baseline_prediction then
              (case baseline_value e of
                 None \<Rightarrow> Inl (AttributeError ''baseline_value'')
               | Some b \<Rightarrow> if \<not> truthy b then Inl (ValueError no_baseline_msg) else Inr b)
            else Inr predictions) of
        Inl ex \<Rightarrow> ([], Inl ex)
      | Inr evaluation_prediction \<Rightarrow>
          reg_score_metrics str (metric_dict e) lbls evaluation_prediction [] [])"

section \<open>ROC evaluation\<close>

text \<open>
  \<open>class_probabilities\<close> is a two-dimensional \<^verbatim>\<open>np.ndarray\<close>, as \<^verbatim>\<open>predict_proba\<close>
  returns it: the list of its rows, all of one length. \<open>column j a\<close> is \<^verbatim>\<open>a[:, j]\<close>,
  which raises \<^verbatim>\<open>IndexError\<close> when the array has no column \<open>j\<close>.
\<close>

type_synonym ndarray = "real list list"

definition column :: "nat \<Rightarrow> ndarray \<Rightarrow> exn + real list" where
  "column j a =
     (if list_all (\<lambda>r. j < length r) a then Inr (map (\<lambda>r. r ! j) a)
      else Inl (IndexError ''index is out of bounds for axis 1''))"

text \<open>
  The collaborators of the ROC evaluation: scikit-learn's \<^verbatim>\<open>roc_auc_score\<close> in the two
  forms the source calls it (\<open>roc_auc_score_ovr\<close> being the call with
  \<^verbatim>\<open>average="weighted", multi_class="ovr"\<close>), \<^verbatim>\<open>roc_curve\<close> and \<^verbatim>\<open>auc\<close>, pandas'
  \<^verbatim>\<open>get_dummies(...).values\<close>, and the rendering: \<open>show_roc_display\<close> is
  \<^verbatim>\<open>RocCurveDisplay.from_estimator\<close> with \<^verbatim>\<open>plot\<close> and \<^verbatim>\<open>plt.show\<close>, \<open>show_curves\<close> the
  matplotlib calls of \<^verbatim>\<open>plot_multiclass_roc\<close> on the curves computed. \<open>str_score\<close> and
  \<open>str_shape\<close> are Python's formatting of a score and of \<^verbatim>\<open>class_probabilities.shape\<close>.
\<close>

record ('o, 'm, 'v) roc_lib =
  roc_auc_score :: "pyval \<Rightarrow> real list \<Rightarrow> exn + 'v"
  roc_auc_score_ovr :: "pyval \<Rightarrow> ndarray \<Rightarrow> exn + 'v"
  roc_curve :: "real list \<Rightarrow> real list \<Rightarrow> exn + (real list \<times> real list)"
  auc :: "real list \<Rightarrow> real list \<Rightarrow> exn + real"
  get_dummies :: "pyval \<Rightarrow> exn + ndarray"
  show_roc_display :: "'m \<Rightarrow> 'o \<Rightarrow> pyval \<Rightarrow> exn + unit"
  show_curves :: "(real list \<times> real list \<times> real) list \<Rightarrow> exn + unit"
  str_score :: "'v \<Rightarrow> string"
  str_shape :: "ndarray \<Rightarrow> string"

text \<open>Lines 397-401 of \<^verbatim>\<open>plot_multiclass_roc\<close>: one curve and its area per class index.\<close>

fun class_roc_curves ::
  "('o, 'm, 'v) roc_lib \<Rightarrow> ndarray \<Rightarrow> ndarray \<Rightarrow> nat list \<Rightarrow>
   exn + (real list \<times> real list \<times> real) list" where
  "class_roc_curves lib y_test_dummies class_probabilities [] = Inr []"
| "class_roc_curves lib y_test_dummies class_probabilities (i # rest) =
     (case column i y_test_dummies of
        Inl ex \<Rightarrow> Inl ex
      | Inr y_i \<Rightarrow>
     (case column i class_probabilities of
        Inl ex \<Rightarrow> Inl ex
      | Inr p_i \<Rightarrow>
     (case roc_curve lib y_i p_i of
        Inl ex \<Rightarrow> Inl ex
      | Inr (fpr, tpr) \<Rightarrow>
     (case auc lib fpr tpr of
        Inl ex \<Rightarrow> Inl ex
      | Inr a \<Rightarrow>
     (case class_roc_curves lib y_test_dummies class_probabilities rest of
        Inl ex \<Rightarrow> Inl ex
      | Inr curves \<Rightarrow> Inr ((fpr, tpr, a) # curves))))))"

text \<open>
  \<^verbatim>\<open>plot_multiclass_roc\<close>. \<open>class_count\<close> is the second component of the shape; an
  array without rows is taken to have no columns.
\<close>

definition plot_multiclass_roc :: "('o, 'm, 'v) roc_lib \<Rightarrow> pyval \<Rightarrow> ndarray \<Rightarrow> exn + unit" where
  "plot_multiclass_roc lib lbls class_probabilities =
     (let class_count = (case class_probabilities of [] \<Rightarrow> 0 | r # _ \<Rightarrow> length r)
      in case get_dummies lib lbls of
           Inl ex \<Rightarrow> Inl ex
         | Inr y_test_dummies \<Rightarrow>
        (case class_roc_curves lib y_test_dummies class_probabilities [0..<class_count] of
           Inl ex \<Rightarrow> Inl ex
         | Inr curves \<Rightarrow> show_curves lib curves))"

definition one_record_msg :: string where
  "one_record_msg =
     ''The class_probabilities passed to evaluate_roc_metrics is only 1 record class_probabilities.shape = ''"

text \<open>Lines 346-361, the binary branch of \<^verbatim>\<open>evaluate_roc_metrics\<close>.\<close>

definition roc_binary ::
  "('o, 'm, 'v) roc_lib \<Rightarrow> 'o ExperimentSetup \<Rightarrow> ndarray \<Rightarrow> 'm \<Rightarrow>
   string list \<times> (exn + (string \<times> 'v) list)" where
  "roc_binary lib full_setup class_probabilities model =
     (case column 1 class_probabilities of
        Inl ex \<Rightarrow> ([], Inl ex)
      | Inr y_score \<Rightarrow>
     (case roc_auc_score lib (labels (test_data full_setup)) y_score of
        Inl ex \<Rightarrow> ([], Inl ex)
      | Inr v \<Rightarrow>
          (let out = [nl @ ''The ROC AUC score is: '' @ str_score lib v]
           in case show_roc_display lib model (obs (test_data full_setup))
                     (labels (test_data full_setup)) of
                Inl ex \<Rightarrow> (out, Inl ex)
              | Inr _ \<Rightarrow> (out, Inr [(''roc_auc_score'', v)]))))"

text \<open>Lines 364-379, the multi-class branch.\<close>

definition roc_multiclass ::
  "('o, 'm, 'v) roc_lib \<Rightarrow> 'o ExperimentSetup \<Rightarrow> ndarray \<Rightarrow>
   string list \<times> (exn + (string \<times> 'v) list)" where
  "roc_multiclass lib full_setup class_probabilities =
     (case roc_auc_score_ovr lib (labels (test_data full_setup)) class_probabilities of
        Inl ex \<Rightarrow> ([], Inl ex)
      | Inr v \<Rightarrow>
          (let out = [nl @ ''The multi-class weighted ROC AUC score is: '' @ str_score lib v]
           in case plot_multiclass_roc lib (labels (test_data full_setup))
                     class_probabilities of
                Inl ex \<Rightarrow> (out, Inl ex)
              | Inr _ \<Rightarrow> (out, Inr [(''roc_auc_score'', v)])))"

text \<open>
  \<^verbatim>\<open>ClassifierExperimentBase.evaluate_roc_metrics\<close>. The method reads no attribute of
  the controller, so the controller is not an argument.
\<close>

definition evaluate_roc_metrics ::
  "('o, 'm, 'v) roc_lib \<Rightarrow> 'o ExperimentSetup \<Rightarrow> ndarray \<Rightarrow> 'm \<Rightarrow>
   string list \<times> (exn + (string \<times> 'v) list)" where
  "evaluate_roc_metrics lib full_setup class_probabilities model =
     (if length class_probabilities \<le> 1
      then ([], Inl (ValueError (one_record_msg @ str_shape lib class_probabilities)))
      else
        (case class_probabilities of
           [] \<Rightarrow> ([], Inl (IndexError ''index 0 is out of bounds for axis 0''))
         | row0 # _ \<Rightarrow>
             if length row0 \<le> 2
             then roc_binary lib full_setup class_probabilities model
             else roc_multiclass lib full_setup class_probabilities))"

section \<open>Result keys\<close>

text \<open>
  The keys under which the classifier's loop body stores results for a registered name:
  the three suffixed names when the name contains \<^verbatim>\<open>f1\<close>, the name itself otherwise.
\<close>

definition result_keys :: "string \<Rightarrow> string set" where
  "result_keys name =
     (if sublist ''f1'' name
      then {name @ ''_macro'', name @ ''_micro'', name @ ''_weighted''}
      else {name})"

section \<open>Example inputs\<close>

text \<open>
  Concrete inputs on which the properties below are exercised: small stand-ins for the
  scikit-learn metrics, a classifier and a regressor built by the constructors, and
  probability arrays. \<open>example_result\<close> and \<open>example_output\<close> are what the classifier's
  evaluation returns and prints on them.
\<close>

definition example_setup :: "unit MLSetup" where
  "example_setup = \<lparr> obs = (), labels = PyList [PyInt 0, PyInt 1, PyInt 1] \<rparr>"

definition example_base :: "(unit, string, real) ExperimentBase" where
  "example_base =
     ExperimentBase_init ''/usr/lib/python3'' example_setup example_setup 5 100 None None
       (Some ''my_loader'') ''_development'' ''_development''"

fun example_f1 :: "real metric" where
  "example_f1 y_true y_pred (Some Macro) = Inr (if y_true = y_pred then 1 else 3 / 10)"
| "example_f1 y_true y_pred (Some Micro) = Inr (if y_true = y_pred then 1 else 4 / 10)"
| "example_f1 y_true y_pred (Some Weighted) = Inr (if y_true = y_pred then 1 else 5 / 10)"
| "example_f1 y_true y_pred None = Inl (ValueError ''Target is multiclass but average is binary'')"

fun example_log_loss :: "real metric" where
  "example_log_loss y_true (PyList (PyList ps # rows)) avg = Inr (1 / 4)"
| "example_log_loss y_true y_pred avg = Inl (ValueError ''y_pred must be probabilities'')"

fun example_accuracy :: "real metric" where
  "example_accuracy y_true y_pred avg = Inr (if y_true = y_pred then 1 else 0)"

fun example_failing :: "real metric" where
  "example_failing y_true y_pred avg = Inl (ValueError ''unsupported targets'')"

definition example_metrics :: "real classifier_metrics" where
  "example_metrics =
     \<lparr> f1_score = example_f1, log_loss = example_log_loss,
       balanced_accuracy_score = example_accuracy, accuracy_score = example_accuracy,
       confusion_matrix = example_failing, classification_report = example_accuracy \<rparr>"

definition example_classifier :: "(unit, string, real) ExperimentBase" where
  "example_classifier =
     ClassifierExperimentBase_init example_metrics ''/usr/lib/python3'' example_setup
       example_setup 5 100 None None None ''_development'' ''_development''"

definition example_probabilities :: pyval where
  "example_probabilities =
     PyList [PyList [PyFloat 0.9, PyFloat 0.1], PyList [PyFloat 0.2, PyFloat 0.8],
             PyList [PyFloat 0.4, PyFloat 0.6]]"

fun example_str :: "real \<Rightarrow> string" where
  "example_str v = (if v = 1 then ''1.0'' else if v = 0 then ''0.0'' else ''0.25'')"

definition example_result :: "(string \<times> real) list" where
  "example_result =
     [(''f1_macro'', 1), (''f1_micro'', 1), (''f1_weighted'', 1), (''log_loss'', 1 / 4),
      (''balanced_accuracy'', 1), (''accuracy'', 1), (''classification_report'', 1)]"

definition example_output :: "string list" where
  "example_output =
     unknown_issues_line ''confusion_matrix'' # map (score_line example_str) example_result"

fun example_roc_auc_score :: "pyval \<Rightarrow> real list \<Rightarrow> exn + real" where
  "example_roc_auc_score (PyList ys) scores =
     (if length ys \<noteq> length scores
      then Inl (ValueError ''Found input variables with inconsistent numbers of samples'')
      else
        (let pos = map snd (filter (\<lambda>(y, s). y = PyInt 1) (zip ys scores));
             neg = map snd (filter (\<lambda>(y, s). y \<noteq> PyInt 1) (zip ys scores))
         in if pos = [] \<or> neg = [] then Inl (ValueError ''Only one class present in y_true'')
            else Inr (sum_list (map (\<lambda>p. sum_list (map (\<lambda>n. if n < p then 1 else if n = p
                         then 1 / 2 else 0) neg)) pos)
                      / real (length pos * length neg))))"
| "example_roc_auc_score y_true scores = Inl (TypeError ''Expected sequence or array-like'')"

definition example_roc_lib :: "(unit, unit, real) roc_lib" where
  "example_roc_lib =
     \<lparr> roc_auc_score = example_roc_auc_score,
       roc_auc_score_ovr = (\<lambda>y_true y_score. Inr (1 / 4)),
       roc_curve = (\<lambda>y_true y_score. Inr ([0, 1], [0, 1])),
       auc = (\<lambda>x y. Inr (1 / 2)),
       get_dummies = (\<lambda>y. Inr [[1, 0, 0], [0, 1, 0], [0, 0, 1]]),
       show_roc_display = (\<lambda>model X y. Inr ()),
       show_curves = (\<lambda>curves. Inr ()),
       str_score = example_str,
       str_shape = (\<lambda>a. if length a = 1 then ''(1, 2)'' else ''(0,)'') \<rparr>"

definition example_experiment_setup :: "unit ExperimentSetup" where
  "example_experiment_setup = \<lparr> train_data = example_setup, test_data = example_setup \<rparr>"

definition example_binary_proba :: ndarray where
  "example_binary_proba = [[9 / 10, 1 / 10], [1 / 5, 4 / 5], [2 / 5, 3 / 5]]"

definition example_binary_proba' :: ndarray where
  "example_binary_proba' = [[1 / 2, 1 / 10], [1 / 2, 4 / 5], [0, 3 / 5]]"

definition example_regressor :: "(unit, string, real) ExperimentBase" where
  "example_regressor =
     RegressionExperimentBase_init ''/usr/lib/python3'' example_setup example_setup 5 100
       None None None ''_development'' ''_development''"

section \<open>Model IO and cross-validation search\<close>

text \<open>
  Without a custom loader the two slots are bound independently: the storage slot by
  the storage argument, the loading slot to the default.
\<close>

lemma model_io_without_custom_loader:
  "store_model (ExperimentBase_init sp tr te n r md sf None mt pt)
     = (case sf of None \<Rightarrow> Default_store_model | Some f \<Rightarrow> Custom f) \<and>
   call_load_model (ExperimentBase_init sp tr te n r md sf None mt pt)
     = Inr Default_load_model"
  by (simp add: ExperimentBase_init_def init_store_model_def init_load_model_def
      call_load_model_def)

text \<open>
  C1. The specification binds a custom model loading function to the loading slot and
  only to it. The constructor does otherwise: whatever the storage argument is, a
  custom loader \<open>g\<close> ends in the storage slot, the loading slot is never assigned, and
  a call of the load strategy raises \<^verbatim>\<open>AttributeError\<close>.
\<close>

theorem custom_loader_lands_in_store_slot:
  "store_model (ExperimentBase_init sp tr te n r md sf (Some g) mt pt) = Custom g \<and>
   load_model (ExperimentBase_init sp tr te n r md sf (Some g) mt pt) = None \<and>
   call_load_model (ExperimentBase_init sp tr te n r md sf (Some g) mt pt)
     = Inl (AttributeError ''load_model'')"
  by (simp add: ExperimentBase_init_def init_store_model_def init_load_model_def
      call_load_model_def)

text \<open>
  C8. The base constructor leaves the standard metric empty, the two specializations
  set it, and \<^verbatim>\<open>cv_search\<close> on a controller with an empty standard metric raises
  \<^verbatim>\<open>NotImplementedError\<close> whatever the search collaborator would do: no search object
  is built and nothing is fitted.
\<close>

theorem cv_search_unset_metric_fails:
  "standard_metric (ExperimentBase_init sp tr te n r md sf lf mt pt) = [] \<and>
   standard_metric (ClassifierExperimentBase_init sk sp1 tr1 te1 n1 r1 md1 sf1 lf1 mt1 pt1)
     = ''f1_macro'' \<and>
   standard_metric (RegressionExperimentBase_init sp2 tr2 te2 n2 r2 md2 sf2 lf2 mt2 pt2)
     = ''neg_root_mean_squared_error'' \<and>
   (standard_metric e = [] \<longrightarrow>
      cv_search fit_search e data_setup ml_model parameters cv_model random_iterations
        = Inl (NotImplementedError no_standard_metric_msg))"
  by (simp add: ExperimentBase_init_def ClassifierExperimentBase_init_def
      RegressionExperimentBase_init_def cv_search_def)

theorem cv_search_unset_metric_fails_witness:
  "standard_metric example_base = [] \<and>
   cv_search (\<lambda>s x y. Inr (0::nat)) example_base example_setup (0::nat) (1::nat)
     ''grid_search'' 5 = Inl (NotImplementedError no_standard_metric_msg)"
  using cv_search_unset_metric_fails
    [where e = example_base and fit_search = "\<lambda>s x y. Inr (0::nat)"
       and data_setup = example_setup and ml_model = "0::nat" and parameters = "1::nat"
       and cv_model = "''grid_search''" and random_iterations = 5,
     THEN conjunct2, THEN conjunct2, THEN conjunct2]
  by (simp add: example_base_def ExperimentBase_init_def)

section \<open>Classifier evaluation: the loop over the registry\<close>

text \<open>
  Keys stored for different registered names never coincide, so an entry of the
  result is written by one registered metric only.
\<close>

lemma suffixed_keys_distinct:
  "n @ ''_macro'' \<noteq> n' @ ''_micro''" "n @ ''_macro'' \<noteq> n' @ ''_weighted''"
  "n @ ''_micro'' \<noteq> n' @ ''_weighted''" "n @ ''_micro'' \<noteq> n' @ ''_macro''"
  "n @ ''_weighted'' \<noteq> n' @ ''_macro''" "n @ ''_weighted'' \<noteq> n' @ ''_micro''"
proof -
  have a: "n @ ''_macro'' \<noteq> n' @ ''_micro''" for n n' :: string by simp
  have b: "n @ ''_macro'' \<noteq> n' @ ''_weighted''" for n n' :: string
  proof
    assume "n @ ''_macro'' = n' @ ''_weighted''"
    then have "last (n @ ''_macro'') = last (n' @ ''_weighted'')" by simp
    then show False by simp
  qed
  have c: "n @ ''_micro'' \<noteq> n' @ ''_weighted''" for n n' :: string
  proof
    assume "n @ ''_micro'' = n' @ ''_weighted''"
    then have "last (n @ ''_micro'') = last (n' @ ''_weighted'')" by simp
    then show False by simp
  qed
  show "n @ ''_macro'' \<noteq> n' @ ''_micro''" "n @ ''_macro'' \<noteq> n' @ ''_weighted''"
  "n @ ''_micro'' \<noteq> n' @ ''_weighted''" "n @ ''_micro'' \<noteq> n' @ ''_macro''"
  "n @ ''_weighted'' \<noteq> n' @ ''_macro''" "n @ ''_weighted'' \<noteq> n' @ ''_micro''"
    using a b c by metis+
qed

lemma suffixed_neq_self:
  "name \<noteq> name @ ''_macro''" "name \<noteq> name @ ''_micro''" "name \<noteq> name @ ''_weighted''"
  by simp_all

lemma f1_in_suffixed: "sublist ''f1'' n \<Longrightarrow> sublist ''f1'' (n @ s)"
  by (auto simp: sublist_append)

lemma result_keys_disjoint:
  assumes "n \<noteq> n'" "k \<in> result_keys n"
  shows "k \<notin> result_keys n'"
proof (cases "sublist ''f1'' n"; cases "sublist ''f1'' n'")
  assume f: "sublist ''f1'' n" "sublist ''f1'' n'"
  with assms show ?thesis
    using suffixed_keys_distinct by (auto simp: result_keys_def)
next
  assume f: "sublist ''f1'' n" "\<not> sublist ''f1'' n'"
  with assms(2) have "sublist ''f1'' k"
    by (auto simp: result_keys_def f1_in_suffixed)
  with f show ?thesis by (auto simp: result_keys_def)
next
  assume f: "\<not> sublist ''f1'' n" "sublist ''f1'' n'"
  with assms(2) have "\<not> sublist ''f1'' k" by (auto simp: result_keys_def)
  with f show ?thesis by (auto simp: result_keys_def f1_in_suffixed)
next
  assume f: "\<not> sublist ''f1'' n" "\<not> sublist ''f1'' n'"
  with assms show ?thesis by (auto simp: result_keys_def)
qed

lemma clf_score_metric_other_keys:
  assumes "clf_score_metric item l ep cp rd out = (out', Inr rd')"
    and "k \<notin> result_keys (fst item)"
  shows "map_of rd' k = map_of rd k"
  using assms
  by (auto simp: clf_score_metric_def result_keys_def Let_def update_conv'
      split: sum.splits if_splits)

lemma clf_score_metrics_other_keys:
  assumes "clf_score_metrics md l ep cp rd out = (out', Inr res)"
    and "\<forall>item \<in> set md. k \<notin> result_keys (fst item)"
  shows "map_of res k = map_of rd k"
  using assms
proof (induction md arbitrary: rd out)
  case Nil
  then show ?case by simp
next
  case (Cons item md)
  from Cons.prems(1) obtain o1 rd1 where
    step: "clf_score_metric item l ep cp rd out = (o1, Inr rd1)" and
    rest: "clf_score_metrics md l ep cp rd1 o1 = (out', Inr res)"
    by (auto split: prod.splits sum.splits)
  from Cons.IH [OF rest] Cons.prems(2) have "map_of res k = map_of rd1 k" by simp
  moreover from clf_score_metric_other_keys [OF step] Cons.prems(2)
  have "map_of rd1 k = map_of rd k" by simp
  ultimately show ?case by simp
qed

lemma clf_score_metrics_append:
  "clf_score_metrics (xs @ ys) l ep cp rd out =
     (case clf_score_metrics xs l ep cp rd out of
        (o1, Inl ex) \<Rightarrow> (o1, Inl ex)
      | (o1, Inr rd1) \<Rightarrow> clf_score_metrics ys l ep cp rd1 o1)"
  by (induction xs arbitrary: rd out) (auto split: prod.splits sum.splits)

lemma clf_score_metric_out:
  "clf_score_metric item l ep cp rd out = (out', r) \<Longrightarrow> set out \<subseteq> set out'"
  by (auto simp: clf_score_metric_def Let_def split: sum.splits if_splits)

lemma clf_score_metrics_out:
  "clf_score_metrics md l ep cp rd out = (out', r) \<Longrightarrow> set out \<subseteq> set out'"
proof (induction md arbitrary: rd out)
  case Nil
  then show ?case by simp
next
  case (Cons item md)
  obtain o1 r1 where step: "clf_score_metric item l ep cp rd out = (o1, r1)"
    by (cases "clf_score_metric item l ep cp rd out")
  show ?case
  proof (cases r1)
    case (Inl ex)
    with step Cons.prems have "out' = o1" by simp
    with clf_score_metric_out [OF step] show ?thesis by simp
  next
    case (Inr rd1)
    with step Cons.prems have "clf_score_metrics md l ep cp rd1 o1 = (out', r)" by simp
    from Cons.IH [OF this] clf_score_metric_out [OF step] show ?thesis by blast
  qed
qed

lemma clf_score_metrics_keys:
  assumes "clf_score_metrics md l ep cp rd out = (out', Inr res)"
    and "k \<in> fst ` set res"
  shows "k \<in> fst ` set rd \<or> (\<exists>item \<in> set md. k \<in> result_keys (fst item))"
proof (rule ccontr)
  assume neg: "\<not> ?thesis"
  then have "\<forall>item \<in> set md. k \<notin> result_keys (fst item)" by blast
  from clf_score_metrics_other_keys [OF assms(1) this]
  have "map_of res k = map_of rd k" .
  moreover from neg have "map_of rd k = None" by (simp add: map_of_eq_None_iff)
  ultimately have "k \<notin> fst ` set res" by (simp add: map_of_eq_None_iff)
  with assms(2) show False by simp
qed

lemma clf_member_run:
  assumes d: "distinct (map fst md)"
    and m: "(name, metric) \<in> set md"
    and run: "clf_score_metrics md l ep cp [] [] = (out, Inr res)"
  shows "\<exists>o1 rd1 o2 rd2.
           clf_score_metric (name, metric) l ep cp rd1 o1 = (o2, Inr rd2) \<and>
           (\<forall>k \<in> result_keys name. map_of rd1 k = None \<and> map_of res k = map_of rd2 k) \<and>
           set o2 \<subseteq> set out"
proof -
  from m obtain pre post where md: "md = pre @ (name, metric) # post"
    by (auto dest: split_list)
  with d have pre: "\<forall>item \<in> set pre. fst item \<noteq> name"
    and post: "\<forall>item \<in> set post. fst item \<noteq> name"
    by auto
  from run md obtain o1 rd1 where
    r1: "clf_score_metrics pre l ep cp [] [] = (o1, Inr rd1)" and
    r2: "clf_score_metrics ((name, metric) # post) l ep cp rd1 o1 = (out, Inr res)"
    by (auto simp: clf_score_metrics_append split: prod.splits sum.splits)
  from r2 obtain o2 rd2 where
    step: "clf_score_metric (name, metric) l ep cp rd1 o1 = (o2, Inr rd2)" and
    r3: "clf_score_metrics post l ep cp rd2 o2 = (out, Inr res)"
    by (auto split: prod.splits sum.splits)
  have "map_of rd1 k = None \<and> map_of res k = map_of rd2 k" if k: "k \<in> result_keys name" for k
  proof -
    from k pre have "\<forall>item \<in> set pre. k \<notin> result_keys (fst item)"
      using result_keys_disjoint by blast
    from clf_score_metrics_other_keys [OF r1 this] have "map_of rd1 k = None" by simp
    moreover from k post have "\<forall>item \<in> set post. k \<notin> result_keys (fst item)"
      using result_keys_disjoint by blast
    from clf_score_metrics_other_keys [OF r3 this] have "map_of res k = map_of rd2 k" .
    ultimately show ?thesis by simp
  qed
  with step clf_score_metrics_out [OF r3] show ?thesis by blast
qed

lemma clf_evaluate_returns:
  assumes "ClassifierExperimentBase_evaluate_predictions str e l p cp bp = (out, Inr res)"
  shows "\<exists>ep lo. (bp \<longrightarrow> baseline_value e = Some ep \<and> truthy ep) \<and> (\<not> bp \<longrightarrow> ep = p) \<and>
           clf_score_metrics (metric_dict e) l ep cp [] [] = (lo, Inr res) \<and>
           out = lo @ map (score_line str) res"
  using assms
  by (auto simp: ClassifierExperimentBase_evaluate_predictions_def
      split: if_splits option.splits sum.splits prod.splits)

text \<open>The example registry and the evaluation of the example classifier.\<close>

lemma example_classifier_run:
  "ClassifierExperimentBase_evaluate_predictions example_str example_classifier
     (labels example_setup) (labels example_setup) example_probabilities False
   = (example_output, Inr example_result)"
  by code_simp

lemma example_classifier_registry:
  "metric_dict example_classifier =
     [(''f1'', example_f1), (''log_loss'', example_log_loss),
      (''balanced_accuracy'', example_accuracy), (''accuracy'', example_accuracy),
      (''confusion_matrix'', example_failing), (''classification_report'', example_accuracy)]"
  by (simp add: example_classifier_def ClassifierExperimentBase_init_def example_metrics_def)

text \<open>
  C7. When the classifier's \<^verbatim>\<open>evaluate_predictions\<close> returns, a registered metric whose
  name contains \<^verbatim>\<open>f1\<close> was called with macro, micro and weighted averaging on the
  labels and the selected prediction; its pass through the loop body stores exactly
  these three values, under the name suffixed with \<^verbatim>\<open>_macro\<close>, \<^verbatim>\<open>_micro\<close> and
  \<^verbatim>\<open>_weighted\<close>, and they are the entries of the returned mapping under these keys.
  The three keys are distinct and none is the unsuffixed name; an entry under the
  unsuffixed name can only be the suffixed entry of another registered metric.
\<close>

theorem f1_metric_registers_three_variants:
  assumes d: "distinct (map fst (metric_dict e))"
    and m: "(name, metric) \<in> set (metric_dict e)"
    and f1: "sublist ''f1'' name"
    and ret: "ClassifierExperimentBase_evaluate_predictions str e l p cp bp = (out, Inr res)"
  shows "\<exists>ep v1 v2 v3.
     (bp \<longrightarrow> baseline_value e = Some ep \<and> truthy ep) \<and> (\<not> bp \<longrightarrow> ep = p) \<and>
     metric l ep (Some Macro) = Inr v1 \<and>
     metric l ep (Some Micro) = Inr v2 \<and>
     metric l ep (Some Weighted) = Inr v3 \<and>
     (\<forall>rd out0. clf_score_metric (name, metric) l ep cp rd out0 =
        (out0, Inr (AList.update (name @ ''_weighted'') v3
                  (AList.update (name @ ''_micro'') v2
                    (AList.update (name @ ''_macro'') v1 rd))))) \<and>
     map_of res (name @ ''_macro'') = Some v1 \<and>
     map_of res (name @ ''_micro'') = Some v2 \<and>
     map_of res (name @ ''_weighted'') = Some v3 \<and>
     card {name @ ''_macro'', name @ ''_micro'', name @ ''_weighted''} = 3 \<and>
     name \<notin> {name @ ''_macro'', name @ ''_micro'', name @ ''_weighted''} \<and>
     (name \<in> fst ` set res \<longrightarrow>
        (\<exists>other \<in> fst ` set (metric_dict e). other \<noteq> name \<and> name \<in> result_keys other))"
proof -
  from clf_evaluate_returns [OF ret] obtain ep lo where
    sel: "bp \<longrightarrow> baseline_value e = Some ep \<and> truthy ep" "\<not> bp \<longrightarrow> ep = p" and
    run: "clf_score_metrics (metric_dict e) l ep cp [] [] = (lo, Inr res)"
    by blast
  from clf_member_run [OF d m run] obtain o1 rd1 o2 rd2 where
    step: "clf_score_metric (name, metric) l ep cp rd1 o1 = (o2, Inr rd2)" and
    keys: "\<forall>k \<in> result_keys name. map_of res k = map_of rd2 k"
    by blast
  from step f1 obtain v1 v2 v3 where
    v: "metric l ep (Some Macro) = Inr v1" "metric l ep (Some Micro) = Inr v2"
       "metric l ep (Some Weighted) = Inr v3" and
    rd2: "rd2 = AList.update (name @ ''_weighted'') v3
                  (AList.update (name @ ''_micro'') v2
                    (AList.update (name @ ''_macro'') v1 rd1))"
    by (auto simp: clf_score_metric_def split: sum.splits)
  from v f1 have stepall: "\<forall>rd out0. clf_score_metric (name, metric) l ep cp rd out0 =
        (out0, Inr (AList.update (name @ ''_weighted'') v3
                  (AList.update (name @ ''_micro'') v2
                    (AList.update (name @ ''_macro'') v1 rd))))"
    by (simp add: clf_score_metric_def)
  from f1 have rk: "result_keys name = {name @ ''_macro'', name @ ''_micro'', name @ ''_weighted''}"
    by (simp add: result_keys_def)
  from keys rk rd2 have vals: "map_of res (name @ ''_macro'') = Some v1"
    "map_of res (name @ ''_micro'') = Some v2" "map_of res (name @ ''_weighted'') = Some v3"
    by (simp_all add: update_conv')
  have c: "card {name @ ''_macro'', name @ ''_micro'', name @ ''_weighted''} = 3"
    by simp
  have n: "name \<notin> {name @ ''_macro'', name @ ''_micro'', name @ ''_weighted''}"
    by simp
  have oth: "\<exists>other \<in> fst ` set (metric_dict e). other \<noteq> name \<and> name \<in> result_keys other"
    if "name \<in> fst ` set res"
  proof -
    from clf_score_metrics_keys [OF run that] obtain item where
      it: "item \<in> set (metric_dict e)" "name \<in> result_keys (fst item)" by auto
    from it(2) rk n have "fst item \<noteq> name" by auto
    with it show ?thesis by blast
  qed
  from sel v stepall vals c n oth show ?thesis by blast
qed

theorem f1_metric_registers_three_variants_witness:
  "\<exists>v1 v2 v3.
     example_f1 (labels example_setup) (labels example_setup) (Some Macro) = Inr v1 \<and>
     example_f1 (labels example_setup) (labels example_setup) (Some Micro) = Inr v2 \<and>
     example_f1 (labels example_setup) (labels example_setup) (Some Weighted) = Inr v3 \<and>
     map_of example_result ''f1_macro'' = Some v1 \<and>
     map_of example_result ''f1_micro'' = Some v2 \<and>
     map_of example_result ''f1_weighted'' = Some v3"
proof -
  have h1: "distinct (map fst (metric_dict example_classifier))"
    by (simp add: example_classifier_registry)
  have h2: "(''f1'', example_f1) \<in> set (metric_dict example_classifier)"
    by (simp add: example_classifier_registry)
  have h3: "sublist ''f1'' ''f1''" by simp
  from f1_metric_registers_three_variants [OF h1 h2 h3 example_classifier_run]
  show ?thesis by auto
qed

lemma clf_score_metric_abort:
  assumes "clf_score_metric (n, m) l ep cp rd out = (out', Inl ex)"
  shows "(sublist ''f1'' n \<and> (\<exists>a. m l ep (Some a) = Inl ex)) \<or>
         (\<not> sublist ''f1'' n \<and> \<not> is_ValueError ex \<and>
            (m l ep None = Inl ex \<or> m l cp None = Inl ex))"
  using assms
  by (auto simp: clf_score_metric_def split: sum.splits if_splits)

lemma clf_score_metrics_abort:
  assumes "clf_score_metrics md l ep cp rd out = (out', Inl ex)"
  shows "\<exists>item \<in> set md.
           (sublist ''f1'' (fst item) \<and> (\<exists>a. snd item l ep (Some a) = Inl ex)) \<or>
           (\<not> sublist ''f1'' (fst item) \<and> \<not> is_ValueError ex \<and>
              (snd item l ep None = Inl ex \<or> snd item l cp None = Inl ex))"
  using assms
proof (induction md arbitrary: rd out)
  case Nil
  then show ?case by simp
next
  case (Cons item md)
  obtain o1 r1 where step: "clf_score_metric item l ep cp rd out = (o1, r1)"
    by (cases "clf_score_metric item l ep cp rd out")
  show ?case
  proof (cases r1)
    case (Inl ex1)
    with step Cons.prems have "clf_score_metric (fst item, snd item) l ep cp rd out = (o1, Inl ex)"
      by simp
    from clf_score_metric_abort [OF this] show ?thesis by simp
  next
    case (Inr rd1)
    with step Cons.prems have "clf_score_metrics md l ep cp rd1 o1 = (out', Inl ex)" by simp
    from Cons.IH [OF this] show ?thesis by auto
  qed
qed

lemma clf_evaluate_raises:
  assumes "ClassifierExperimentBase_evaluate_predictions str e l p cp bp = (out, Inl ex)"
    and "bp \<longrightarrow> baseline_value e = Some ep \<and> truthy ep" and "\<not> bp \<longrightarrow> ep = p"
  shows "clf_score_metrics (metric_dict e) l ep cp [] [] = (out, Inl ex)"
  using assms
  by (cases bp)
     (auto simp: ClassifierExperimentBase_evaluate_predictions_def
      split: if_splits option.splits sum.splits prod.splits)

text \<open>
  C3. For a registered metric whose name does not contain \<^verbatim>\<open>f1\<close>: the loop body
  stores the value of the call on the selected prediction; if that call raises
  \<^verbatim>\<open>ValueError\<close> it stores the value of the call on \<open>class_probabilities\<close>; if that
  raises \<^verbatim>\<open>ValueError\<close> too it prints the diagnostic, leaves the mapping as it was and
  does not raise. In the returned mapping the metric has the first of these values, or
  is absent with the diagnostic printed. When the evaluation raises, the exception comes
  from a metric whose name contains \<^verbatim>\<open>f1\<close> or is not a \<^verbatim>\<open>ValueError\<close>.
\<close>

theorem non_f1_metric_domain_failure_tolerated:
  assumes d: "distinct (map fst (metric_dict e))"
    and m: "(name, metric) \<in> set (metric_dict e)"
    and nf: "\<not> sublist ''f1'' name"
    and sel: "bp \<longrightarrow> baseline_value e = Some ep \<and> truthy ep" "\<not> bp \<longrightarrow> ep = p"
  shows
    "(\<forall>v rd out0. metric l ep None = Inr v \<longrightarrow>
        clf_score_metric (name, metric) l ep cp rd out0 = (out0, Inr (AList.update name v rd))) \<and>
     (\<forall>ex v rd out0. metric l ep None = Inl ex \<and> is_ValueError ex \<and> metric l cp None = Inr v \<longrightarrow>
        clf_score_metric (name, metric) l ep cp rd out0 = (out0, Inr (AList.update name v rd))) \<and>
     (\<forall>ex ex' rd out0. metric l ep None = Inl ex \<and> is_ValueError ex \<and>
          metric l cp None = Inl ex' \<and> is_ValueError ex' \<longrightarrow>
        clf_score_metric (name, metric) l ep cp rd out0
          = (out0 @ [unknown_issues_line name], Inr rd)) \<and>
     (\<forall>out res. ClassifierExperimentBase_evaluate_predictions str e l p cp bp = (out, Inr res) \<longrightarrow>
        (\<forall>v. metric l ep None = Inr v \<longrightarrow> map_of res name = Some v) \<and>
        (\<forall>ex v. metric l ep None = Inl ex \<and> is_ValueError ex \<and> metric l cp None = Inr v \<longrightarrow>
           map_of res name = Some v) \<and>
        (\<forall>ex ex'. metric l ep None = Inl ex \<and> is_ValueError ex \<and>
             metric l cp None = Inl ex' \<and> is_ValueError ex' \<longrightarrow>
           name \<notin> fst ` set res \<and> unknown_issues_line name \<in> set out)) \<and>
     (\<forall>out ex. ClassifierExperimentBase_evaluate_predictions str e l p cp bp = (out, Inl ex) \<longrightarrow>
        (\<exists>item \<in> set (metric_dict e).
           (sublist ''f1'' (fst item) \<and> (\<exists>a. snd item l ep (Some a) = Inl ex)) \<or>
           (\<not> sublist ''f1'' (fst item) \<and> \<not> is_ValueError ex \<and>
              (snd item l ep None = Inl ex \<or> snd item l cp None = Inl ex))))"
proof (intro conjI allI impI)
  fix v rd out0
  assume "metric l ep None = Inr v"
  with nf show "clf_score_metric (name, metric) l ep cp rd out0
      = (out0, Inr (AList.update name v rd))"
    by (simp add: clf_score_metric_def)
next
  fix ex v rd out0
  assume "metric l ep None = Inl ex \<and> is_ValueError ex \<and> metric l cp None = Inr v"
  with nf show "clf_score_metric (name, metric) l ep cp rd out0
      = (out0, Inr (AList.update name v rd))"
    by (simp add: clf_score_metric_def)
next
  fix ex ex' rd out0
  assume "metric l ep None = Inl ex \<and> is_ValueError ex \<and>
          metric l cp None = Inl ex' \<and> is_ValueError ex'"
  with nf show "clf_score_metric (name, metric) l ep cp rd out0
      = (out0 @ [unknown_issues_line name], Inr rd)"
    by (simp add: clf_score_metric_def)
next
  fix out res v
  assume ret: "ClassifierExperimentBase_evaluate_predictions str e l p cp bp = (out, Inr res)"
    and c: "metric l ep None = Inr v"
  from clf_evaluate_returns [OF ret] sel obtain lo where
    run: "clf_score_metrics (metric_dict e) l ep cp [] [] = (lo, Inr res)"
    by (cases bp) auto
  from clf_member_run [OF d m run] nf obtain o1 rd1 o2 rd2 where
    step: "clf_score_metric (name, metric) l ep cp rd1 o1 = (o2, Inr rd2)" and
    keys: "map_of res name = map_of rd2 name"
    by (auto simp: result_keys_def)
  from step nf c have "rd2 = AList.update name v rd1" by (simp add: clf_score_metric_def)
  with keys show "map_of res name = Some v" by (simp add: update_conv')
next
  fix out res ex v
  assume ret: "ClassifierExperimentBase_evaluate_predictions str e l p cp bp = (out, Inr res)"
    and c: "metric l ep None = Inl ex \<and> is_ValueError ex \<and> metric l cp None = Inr v"
  from clf_evaluate_returns [OF ret] sel obtain lo where
    run: "clf_score_metrics (metric_dict e) l ep cp [] [] = (lo, Inr res)"
    by (cases bp) auto
  from clf_member_run [OF d m run] nf obtain o1 rd1 o2 rd2 where
    step: "clf_score_metric (name, metric) l ep cp rd1 o1 = (o2, Inr rd2)" and
    keys: "map_of res name = map_of rd2 name"
    by (auto simp: result_keys_def)
  from step nf c have "rd2 = AList.update name v rd1" by (simp add: clf_score_metric_def)
  with keys show "map_of res name = Some v" by (simp add: update_conv')
next
  fix out res ex ex'
  assume ret: "ClassifierExperimentBase_evaluate_predictions str e l p cp bp = (out, Inr res)"
    and c: "metric l ep None = Inl ex \<and> is_ValueError ex \<and>
            metric l cp None = Inl ex' \<and> is_ValueError ex'"
  from clf_evaluate_returns [OF ret] sel obtain lo where
    run: "clf_score_metrics (metric_dict e) l ep cp [] [] = (lo, Inr res)" and
    out: "out = lo @ map (score_line str) res"
    by (cases bp) auto
  from clf_member_run [OF d m run] nf obtain o1 rd1 o2 rd2 where
    step: "clf_score_metric (name, metric) l ep cp rd1 o1 = (o2, Inr rd2)" and
    keys: "map_of rd1 name = None" "map_of res name = map_of rd2 name" and
    sub: "set o2 \<subseteq> set lo"
    by (auto simp: result_keys_def)
  from step nf c have "rd2 = rd1" "o2 = o1 @ [unknown_issues_line name]"
    by (simp_all add: clf_score_metric_def)
  with keys have "map_of res name = None" by simp
  then show "name \<notin> fst ` set res" by (simp add: map_of_eq_None_iff)
  from \<open>o2 = o1 @ [unknown_issues_line name]\<close> sub out
  show "unknown_issues_line name \<in> set out" by auto
next
  fix out ex
  assume "ClassifierExperimentBase_evaluate_predictions str e l p cp bp = (out, Inl ex)"
  from clf_score_metrics_abort [OF clf_evaluate_raises [OF this sel]]
  show "\<exists>item \<in> set (metric_dict e).
           (sublist ''f1'' (fst item) \<and> (\<exists>a. snd item l ep (Some a) = Inl ex)) \<or>
           (\<not> sublist ''f1'' (fst item) \<and> \<not> is_ValueError ex \<and>
              (snd item l ep None = Inl ex \<or> snd item l cp None = Inl ex))" .
qed
theorem non_f1_metric_domain_failure_tolerated_witness:
  "map_of example_result ''log_loss'' = Some (1 / 4) \<and>
   ''confusion_matrix'' \<notin> fst ` set example_result \<and>
   unknown_issues_line ''confusion_matrix'' \<in> set example_output"
proof -
  have h1: "distinct (map fst (metric_dict example_classifier))"
    by (simp add: example_classifier_registry)
  have ll: "(''log_loss'', example_log_loss) \<in> set (metric_dict example_classifier)"
    by (simp add: example_classifier_registry)
  have cm: "(''confusion_matrix'', example_failing) \<in> set (metric_dict example_classifier)"
    by (simp add: example_classifier_registry)
  have n1: "\<not> sublist ''f1'' ''log_loss''" by code_simp
  have n2: "\<not> sublist ''f1'' ''confusion_matrix''" by code_simp
  have s1: "False \<longrightarrow> baseline_value example_classifier = Some (labels example_setup) \<and>
            truthy (labels example_setup)" by simp
  have s2: "\<not> False \<longrightarrow> labels example_setup = labels example_setup" by simp
  have c1: "example_log_loss (labels example_setup) (labels example_setup) None
              = Inl (ValueError ''y_pred must be probabilities'')"
    by (simp add: example_setup_def)
  have c2: "example_log_loss (labels example_setup) example_probabilities None = Inr (1 / 4)"
    by (simp add: example_probabilities_def)
  from non_f1_metric_domain_failure_tolerated [OF h1 ll n1 s1 s2,
      where str = example_str and l = "labels example_setup" and cp = example_probabilities]
    example_classifier_run c1 c2
  have a: "map_of example_result ''log_loss'' = Some (1 / 4)"
    by (metis is_ValueError.simps(1))
  from non_f1_metric_domain_failure_tolerated [OF h1 cm n2 s1 s2,
      where str = example_str and l = "labels example_setup" and cp = example_probabilities]
    example_classifier_run
  have b: "''confusion_matrix'' \<notin> fst ` set example_result \<and>
           unknown_issues_line ''confusion_matrix'' \<in> set example_output"
    by (metis example_failing.simps is_ValueError.simps(1))
  from a b show ?thesis by simp
qed

section \<open>Baseline selection\<close>

text \<open>
  With \<^verbatim>\<open>baseline_prediction=True\<close>, a baseline left at \<^verbatim>\<open>None\<close> raises before the loop
  over the registry starts, and a truthy baseline is scored in place of the predictions.
\<close>

lemma baseline_unset_fails:
  assumes "baseline_value e = Some PyNone"
  shows "ClassifierExperimentBase_evaluate_predictions str e l p cp True
           = ([], Inl (ValueError no_baseline_msg))"
    and "RegressionExperimentBase_evaluate_predictions str e l p cp True
           = ([], Inl (ValueError no_baseline_msg))"
  using assms
  by (simp_all add: ClassifierExperimentBase_evaluate_predictions_def
      RegressionExperimentBase_evaluate_predictions_def)

lemma truthy_baseline_is_scored:
  assumes "baseline_value e = Some b" and "truthy b"
  shows "ClassifierExperimentBase_evaluate_predictions str e l p cp True
           = ClassifierExperimentBase_evaluate_predictions str e l b cp False"
    and "RegressionExperimentBase_evaluate_predictions str e l p cp True
           = RegressionExperimentBase_evaluate_predictions str e l b cp False"
  using assms
  by (simp_all add: ClassifierExperimentBase_evaluate_predictions_def
      RegressionExperimentBase_evaluate_predictions_def)

text \<open>
  C5. The specification scores a configured baseline in place of the predictions.
  With the baseline configured as the number 0 and \<^verbatim>\<open>baseline_prediction=True\<close>, both
  specializations raise the error of a missing baseline and score nothing, whatever
  the registry holds.
\<close>

theorem zero_baseline_is_not_scored:
  "ClassifierExperimentBase_evaluate_predictions str (e\<lparr>baseline_value := Some (PyInt 0)\<rparr>)
     l p cp True = ([], Inl (ValueError no_baseline_msg)) \<and>
   RegressionExperimentBase_evaluate_predictions str (e\<lparr>baseline_value := Some (PyInt 0)\<rparr>)
     l p cp True = ([], Inl (ValueError no_baseline_msg))"
  by (simp add: ClassifierExperimentBase_evaluate_predictions_def
      RegressionExperimentBase_evaluate_predictions_def)

text \<open>
  C10. In both specializations the check is on the truth value of the baseline: with
  \<^verbatim>\<open>baseline_prediction=True\<close> and a configured baseline that is falsy, such as 0 or
  an empty sequence, the call raises the error of a missing baseline.
\<close>

theorem falsy_baseline_raises_no_baseline:
  assumes "baseline_value e1 = Some b" and "baseline_value e2 = Some b" and "\<not> truthy b"
  shows "ClassifierExperimentBase_evaluate_predictions str1 e1 l1 p1 cp1 True
           = ([], Inl (ValueError no_baseline_msg)) \<and>
         RegressionExperimentBase_evaluate_predictions str2 e2 l2 p2 cp2 True
           = ([], Inl (ValueError no_baseline_msg))"
  using assms
  by (simp add: ClassifierExperimentBase_evaluate_predictions_def
      RegressionExperimentBase_evaluate_predictions_def)

theorem falsy_baseline_raises_no_baseline_witness:
  "\<not> truthy (PyList []) \<and>
   ClassifierExperimentBase_evaluate_predictions example_str
     (example_classifier\<lparr>baseline_value := Some (PyList [])\<rparr>)
     (labels example_setup) (labels example_setup) example_probabilities True
     = ([], Inl (ValueError no_baseline_msg)) \<and>
   RegressionExperimentBase_evaluate_predictions example_str
     (example_regressor\<lparr>baseline_value := Some (PyList [])\<rparr>)
     (labels example_setup) (labels example_setup) PyNone True
     = ([], Inl (ValueError no_baseline_msg))"
  using falsy_baseline_raises_no_baseline
    [where ?e1.0 = "example_classifier\<lparr>baseline_value := Some (PyList [])\<rparr>"
       and ?e2.0 = "example_regressor\<lparr>baseline_value := Some (PyList [])\<rparr>"
       and b = "PyList []" and ?str1.0 = example_str and ?str2.0 = example_str
       and ?l1.0 = "labels example_setup" and ?l2.0 = "labels example_setup"
       and ?p1.0 = "labels example_setup" and ?p2.0 = "labels example_setup"
       and ?cp1.0 = example_probabilities and ?cp2.0 = PyNone]
  by simp

section \<open>ROC evaluation\<close>

text \<open>
  C4. In the binary branch (more than one record, a first row of width at most 2) a
  returned \<^verbatim>\<open>roc_auc_score\<close> is the score of column 1 against the test labels, and two
  probability arrays with the same column 1 give the same outcome, whatever their
  column 0.
\<close>

theorem binary_roc_uses_column_1:
  assumes "1 < length cp" and "length (hd cp) \<le> 2"
  shows
    "(\<forall>out res. evaluate_roc_metrics lib fs cp model = (out, Inr res) \<longrightarrow>
        (\<exists>y_score v. column 1 cp = Inr y_score \<and>
           roc_auc_score lib (labels (test_data fs)) y_score = Inr v \<and>
           res = [(''roc_auc_score'', v)])) \<and>
     (\<forall>cp'. 1 < length cp' \<and> length (hd cp') \<le> 2 \<and> column 1 cp' = column 1 cp \<longrightarrow>
        evaluate_roc_metrics lib fs cp' model = evaluate_roc_metrics lib fs cp model)"
proof -
  have bin: "evaluate_roc_metrics lib fs a model = roc_binary lib fs a model"
    if "1 < length a" "length (hd a) \<le> 2" for a
    using that by (cases a) (simp_all add: evaluate_roc_metrics_def)
  have one: "\<exists>y_score v. column 1 cp = Inr y_score \<and>
           roc_auc_score lib (labels (test_data fs)) y_score = Inr v \<and>
           res = [(''roc_auc_score'', v)]"
    if "evaluate_roc_metrics lib fs cp model = (out, Inr res)" for out res
    using that bin [OF assms]
    by (auto simp: roc_binary_def Let_def split: sum.splits)
  have two: "evaluate_roc_metrics lib fs cp' model = evaluate_roc_metrics lib fs cp model"
    if "1 < length cp' \<and> length (hd cp') \<le> 2 \<and> column 1 cp' = column 1 cp" for cp'
    using that bin [OF assms] bin [of cp'] by (simp add: roc_binary_def)
  from one two show ?thesis by blast
qed

theorem binary_roc_uses_column_1_witness:
  "evaluate_roc_metrics example_roc_lib example_experiment_setup example_binary_proba' ()
     = evaluate_roc_metrics example_roc_lib example_experiment_setup example_binary_proba () \<and>
   evaluate_roc_metrics example_roc_lib example_experiment_setup example_binary_proba ()
     = ([nl @ ''The ROC AUC score is: 1.0''], Inr [(''roc_auc_score'', 1)]) \<and>
   map hd example_binary_proba' \<noteq> map hd example_binary_proba"
proof -
  have h1: "1 < length example_binary_proba" by (simp add: example_binary_proba_def)
  have h2: "length (hd example_binary_proba) \<le> 2" by (simp add: example_binary_proba_def)
  have h3: "1 < length example_binary_proba' \<and> length (hd example_binary_proba') \<le> 2 \<and>
            column 1 example_binary_proba' = column 1 example_binary_proba"
    by (simp add: example_binary_proba_def example_binary_proba'_def column_def)
  have r: "evaluate_roc_metrics example_roc_lib example_experiment_setup example_binary_proba ()
     = ([nl @ ''The ROC AUC score is: 1.0''], Inr [(''roc_auc_score'', 1)])"
    by code_simp
  have d: "map hd example_binary_proba' \<noteq> map hd example_binary_proba"
    by (simp add: example_binary_proba_def example_binary_proba'_def)
  from binary_roc_uses_column_1 [OF h1 h2, of example_roc_lib example_experiment_setup "()"]
    h3 r d
  show ?thesis by simp
qed

text \<open>
  C6. With one record or none \<^verbatim>\<open>evaluate_roc_metrics\<close> raises \<^verbatim>\<open>ValueError\<close> and
  prints nothing; with more than one record it is the binary branch when the first
  row has width at most 2 and the multi-class branch otherwise.
\<close>

theorem roc_requires_more_than_one_record:
  "(length cp \<le> 1 \<longrightarrow>
      evaluate_roc_metrics lib fs cp model
        = ([], Inl (ValueError (one_record_msg @ str_shape lib cp)))) \<and>
   (1 < length cp \<longrightarrow>
      evaluate_roc_metrics lib fs cp model
        = (if length (hd cp) \<le> 2 then roc_binary lib fs cp model
           else roc_multiclass lib fs cp))"
  by (cases cp) (simp_all add: evaluate_roc_metrics_def)

theorem roc_requires_more_than_one_record_witness:
  "evaluate_roc_metrics example_roc_lib example_experiment_setup [[1 / 4, 3 / 4]] ()
     = ([], Inl (ValueError (one_record_msg @ ''(1, 2)''))) \<and>
   evaluate_roc_metrics example_roc_lib example_experiment_setup [] ()
     = ([], Inl (ValueError (one_record_msg @ ''(0,)''))) \<and>
   evaluate_roc_metrics example_roc_lib example_experiment_setup example_binary_proba ()
     = roc_binary example_roc_lib example_experiment_setup example_binary_proba ()"
  using roc_requires_more_than_one_record
      [of "[[1 / 4, 3 / 4]]" example_roc_lib example_experiment_setup "()"]
    roc_requires_more_than_one_record
      [of "[]" example_roc_lib example_experiment_setup "()"]
    roc_requires_more_than_one_record
      [of example_binary_proba example_roc_lib example_experiment_setup "()"]
  by (simp add: example_roc_lib_def example_binary_proba_def)


section \<open>Regression evaluation\<close>

lemma squared_self_differences: "sum_list (map (\<lambda>(y, p). (y - p)\<^sup>2) (zip ys ys)) = (0::real)"
  by (induction ys) simp_all

lemma absolute_self_differences: "sum_list (map (\<lambda>(y, p). \<bar>y - p\<bar>) (zip ys ys)) = (0::real)"
  by (induction ys) simp_all

lemma regression_targets_same:
  assumes "xs \<noteq> []" and "list_all (\<lambda>x. num_of x \<noteq> None) xs"
  shows "regression_targets (PyList xs) (PyList xs) None
           = Inr (zip (map (\<lambda>x. the (num_of x)) xs) (map (\<lambda>x. the (num_of x)) xs))"
  using assms by (simp add: regression_targets_def)

lemma mean_squared_error_same:
  assumes "xs \<noteq> []" and "list_all (\<lambda>x. num_of x \<noteq> None) xs"
  shows "mean_squared_error (PyList xs) (PyList xs) None = Inr 0"
  by (simp add: mean_squared_error_def regression_targets_same [OF assms]
      squared_self_differences)

lemma mean_absolute_error_same:
  assumes "xs \<noteq> []" and "list_all (\<lambda>x. num_of x \<noteq> None) xs"
  shows "mean_absolute_error (PyList xs) (PyList xs) None = Inr 0"
  by (simp add: mean_absolute_error_def regression_targets_same [OF assms]
      absolute_self_differences)

lemma reg_score_metrics_other_keys:
  assumes "reg_score_metrics str md l ep rd out = (out', Inr res)"
    and "k \<notin> fst ` set md"
  shows "map_of res k = map_of rd k"
  using assms
proof (induction md arbitrary: rd out)
  case Nil
  then show ?case by simp
next
  case (Cons item md)
  obtain name metric where item: "item = (name, metric)" by (cases item)
  with Cons.prems(1) obtain v where
    v: "metric l ep None = Inr v" and
    rest: "reg_score_metrics str md l ep (AList.update name v rd) (out @ [is_line str name v])
             = (out', Inr res)"
    by (auto split: sum.splits)
  from Cons.prems(2) item have "k \<noteq> name" "k \<notin> fst ` set md" by auto
  with Cons.IH [OF rest] show ?case by (simp add: update_conv')
qed

lemma reg_score_metrics_member:
  assumes "reg_score_metrics str md l ep rd out = (out', Inr res)"
    and "distinct (map fst md)" and "(name, metric) \<in> set md"
  shows "\<exists>v. metric l ep None = Inr v \<and> map_of res name = Some v"
  using assms
proof (induction md arbitrary: rd out)
  case Nil
  then show ?case by simp
next
  case (Cons item md)
  obtain n m where item: "item = (n, m)" by (cases item)
  with Cons.prems(1) obtain v where
    v: "m l ep None = Inr v" and
    rest: "reg_score_metrics str md l ep (AList.update n v rd) (out @ [is_line str n v])
             = (out', Inr res)"
    by (auto split: sum.splits)
  show ?case
  proof (cases "(name, metric) = (n, m)")
    case True
    with Cons.prems(2) item have "name \<notin> fst ` set md" by auto
    from reg_score_metrics_other_keys [OF rest this] True v
    show ?thesis by (simp add: update_conv')
  next
    case False
    with Cons.prems(3) item have "(name, metric) \<in> set md" by auto
    with Cons.IH [OF rest] Cons.prems(2) show ?thesis by simp
  qed
qed

text \<open>
  C9. For a non-empty numeric label sequence, the regression \<^verbatim>\<open>evaluate_predictions\<close>
  of a freshly constructed regressor, called with the labels as predictions and
  \<^verbatim>\<open>baseline_prediction=False\<close>, returns \<^verbatim>\<open>mse\<close> and \<^verbatim>\<open>mae\<close> equal to 0. In general a
  returned mapping holds, for every registered metric, the value of its one call on
  the labels and the predictions.
\<close>

theorem regression_perfect_predictions_score_zero:
  assumes "xs \<noteq> []" and "list_all (\<lambda>x. num_of x \<noteq> None) xs"
  shows
    "RegressionExperimentBase_evaluate_predictions str
       (RegressionExperimentBase_init sp tr te n r md sf lf mt pt)
       (PyList xs) (PyList xs) cp False
       = ([is_line str ''mse'' 0, is_line str ''mae'' 0], Inr [(''mse'', 0), (''mae'', 0)]) \<and>
     (\<forall>out res name metric.
        RegressionExperimentBase_evaluate_predictions str e l p cp False = (out, Inr res) \<and>
        distinct (map fst (metric_dict e)) \<and> (name, metric) \<in> set (metric_dict e) \<longrightarrow>
        (\<exists>v. metric l p None = Inr v \<and> map_of res name = Some v))"
proof -
  have a: "RegressionExperimentBase_evaluate_predictions str
       (RegressionExperimentBase_init sp tr te n r md sf lf mt pt)
       (PyList xs) (PyList xs) cp False
       = ([is_line str ''mse'' 0, is_line str ''mae'' 0], Inr [(''mse'', 0), (''mae'', 0)])"
    by (simp add: RegressionExperimentBase_evaluate_predictions_def
        RegressionExperimentBase_init_def ExperimentBase_init_def
        mean_squared_error_same [OF assms] mean_absolute_error_same [OF assms])
  have b: "\<exists>v. metric l p None = Inr v \<and> map_of res name = Some v"
    if "RegressionExperimentBase_evaluate_predictions str e l p cp False = (out, Inr res) \<and>
        distinct (map fst (metric_dict e)) \<and> (name, metric) \<in> set (metric_dict e)"
    for out res name metric
  proof -
    from that have "reg_score_metrics str (metric_dict e) l p [] [] = (out, Inr res)"
      by (simp add: RegressionExperimentBase_evaluate_predictions_def)
    from reg_score_metrics_member [OF this] that show ?thesis by blast
  qed
  from a b show ?thesis by blast
qed

theorem regression_perfect_predictions_score_zero_witness:
  "RegressionExperimentBase_evaluate_predictions example_str example_regressor
     (PyList [PyFloat 3, PyInt 2, PyFloat (- 1)])
     (PyList [PyFloat 3, PyInt 2, PyFloat (- 1)]) PyNone False
   = ([nl @ ''The mse is: 0.0'', nl @ ''The mae is: 0.0''], Inr [(''mse'', 0), (''mae'', 0)])"
proof -
  have h1: "[PyFloat 3, PyInt 2, PyFloat (- 1)] \<noteq> []" by simp
  have h2: "list_all (\<lambda>x. num_of x \<noteq> None) [PyFloat 3, PyInt 2, PyFloat (- 1)]"
    by simp
  from regression_perfect_predictions_score_zero [OF h1 h2,
      where str = example_str and sp = "''/usr/lib/python3''" and tr = example_setup
        and te = example_setup and n = 5 and r = 100 and md = None and sf = None
        and lf = None and mt = "''_development''" and pt = "''_development''"
        and cp = PyNone, THEN conjunct1]
  show ?thesis by (simp add: example_regressor_def is_line_def)
qed

end
